theory Spec2Isabelle
  imports Main "HOL-Library.Word"
begin

unbundle bit_operations_syntax

section \<open>Data model\<close>

text \<open>
  Modelled from the spec: \<^verbatim>\<open>cpu.h\<close> with the declaration of the processor structure is
  missing. The fields are the ones \<^verbatim>\<open>cpu.c\<close> reads and writes; the spec gives 8-bit
  registers and stack pointer, a 16-bit program counter and seven flags. Every flag is
  kept as a byte of its own: the code tests a flag with \<^verbatim>\<open>!= 0\<close>, stores \<^verbatim>\<open>0\<close> or
  \<^verbatim>\<open>1\<close> in \<^verbatim>\<open>cpu_reset\<close> and a masked status bit in \<^verbatim>\<open>_cpu_set_status\<close>, so a
  flag is set exactly when its byte is nonzero.
\<close>

record cpu_state_t =
  a :: "8 word"
  x :: "8 word"
  y :: "8 word"
  s :: "8 word"
  sp :: "8 word"
  pc :: "16 word"
  n :: "8 word"
  v :: "8 word"
  b :: "8 word"
  d :: "8 word"
  i :: "8 word"
  z :: "8 word"
  c :: "8 word"

text \<open>
  Modelled from the spec: \<^verbatim>\<open>mem.h\<close> and \<^verbatim>\<open>mem.c\<close> (the memory bus and the
  direct accessors) are missing. The bus is taken as one flat 64 KiB address space;
  the direct buffer \<^verbatim>\<open>cpu->memory\<close> used by the stack is the same storage, as the
  spec requires of the fast path ("the cached buffer and the registered RAM region are
  the same storage, not a copy").
\<close>

record cpu_t =
  state :: cpu_state_t
  strict :: bool
  trace :: "8 word"
  memory :: "16 word \<Rightarrow> 8 word"

definition mem_get_byte :: "cpu_t \<Rightarrow> 16 word \<Rightarrow> 8 word" where
  "mem_get_byte cpu addr = memory cpu addr"

text \<open>
  Modelled from the spec: a vector is a "two-byte little-endian address": low byte at
  \<open>addr\<close>, high byte at \<open>addr + 1\<close>.
\<close>

definition mem_get_word :: "cpu_t \<Rightarrow> 16 word \<Rightarrow> 16 word" where
  "mem_get_word cpu addr =
     push_bit 8 (ucast (mem_get_byte cpu (addr + 1))) OR ucast (mem_get_byte cpu addr)"

text \<open>
  Modelled from the spec: the direct accessors \<^verbatim>\<open>_mem_get_byte_direct\<close> and
  \<^verbatim>\<open>_mem_set_byte_direct\<close> read and write one byte of that storage, bypassing region
  resolution. (Isabelle names cannot begin with an underscore, so the leading underscore
  of the private functions of \<^verbatim>\<open>cpu.c\<close> and \<^verbatim>\<open>mem.c\<close> is dropped throughout.)
\<close>

definition mem_get_byte_direct :: "cpu_t \<Rightarrow> 16 word \<Rightarrow> 8 word" where
  "mem_get_byte_direct cpu addr = memory cpu addr"

definition mem_set_byte_direct :: "cpu_t \<Rightarrow> 16 word \<Rightarrow> 8 word \<Rightarrow> cpu_t" where
  "mem_set_byte_direct cpu addr v8 = cpu\<lparr>memory := (memory cpu)(addr := v8)\<rparr>"

section \<open>Status byte\<close>

text \<open>One term of \<^verbatim>\<open>_cpu_get_status\<close>: \<^verbatim>\<open>((flag != 0) & 0x01) << k\<close>.\<close>

definition status_bit :: "8 word \<Rightarrow> nat \<Rightarrow> 8 word" where
  "status_bit flag k = push_bit k ((if flag \<noteq> 0 then 1 else 0) AND 1)"

definition cpu_get_status :: "cpu_t \<Rightarrow> 8 word" where
  "cpu_get_status cpu =
     0x30
       OR status_bit (n (state cpu)) 7
       OR status_bit (v (state cpu)) 6
       OR status_bit (b (state cpu)) 4
       OR status_bit (d (state cpu)) 3
       OR status_bit (i (state cpu)) 2
       OR status_bit (z (state cpu)) 1
       OR status_bit (c (state cpu)) 0"

definition cpu_set_status :: "cpu_t \<Rightarrow> 8 word \<Rightarrow> cpu_t" where
  "cpu_set_status cpu status =
     cpu\<lparr>state := (state cpu)
       \<lparr>n := status AND push_bit 7 1,
        v := status AND push_bit 6 1,
        b := status AND push_bit 4 1,
        d := status AND push_bit 3 1,
        i := status AND push_bit 2 1,
        z := status AND push_bit 1 1,
        c := status AND push_bit 0 1\<rparr>\<rparr>"

section \<open>Runtime toggles\<close>

text \<open>\<^verbatim>\<open>cpu_strict\<close> assigns the constant \<^verbatim>\<open>true\<close>; its parameter is not read.\<close>

definition cpu_strict :: "cpu_t \<Rightarrow> bool \<Rightarrow> cpu_t" where
  "cpu_strict cpu strict_arg = cpu\<lparr>strict := True\<rparr>"

definition cpu_trace :: "cpu_t \<Rightarrow> 8 word \<Rightarrow> cpu_t" where
  "cpu_trace cpu trace_arg = cpu\<lparr>trace := trace_arg\<rparr>"

text \<open>
  \<^verbatim>\<open>cpu_init\<close>: \<^verbatim>\<open>memset\<close> of the whole structure to zero; the address space
  attached to it reads zero everywhere.
\<close>

definition cpu_init :: "cpu_t" where
  "cpu_init = \<lparr>state = \<lparr>a = 0, x = 0, y = 0, s = 0, sp = 0, pc = 0,
                 n = 0, v = 0, b = 0, d = 0, i = 0, z = 0, c = 0\<rparr>,
               strict = False, trace = 0, memory = (\<lambda>_. 0)\<rparr>"

section \<open>Stack management\<close>

text \<open>
  The stack lives in page 1: the address of a slot is \<^verbatim>\<open>0x0100 + sp\<close>, computed in
  \<^verbatim>\<open>int\<close> and passed as a 16-bit address. The stack pointer is an unsigned byte, so
  \<^verbatim>\<open>sp -= 1\<close> and \<^verbatim>\<open>sp += 1\<close> wrap modulo 256.
\<close>

definition cpu_push_byte :: "cpu_t \<Rightarrow> 8 word \<Rightarrow> cpu_t" where
  "cpu_push_byte cpu v8 =
     (let cpu1 = mem_set_byte_direct cpu (0x0100 + ucast (sp (state cpu))) v8
      in cpu1\<lparr>state := (state cpu1)\<lparr>sp := sp (state cpu1) - 1\<rparr>\<rparr>)"

definition cpu_push_word :: "cpu_t \<Rightarrow> 16 word \<Rightarrow> cpu_t" where
  "cpu_push_word cpu w16 =
     (let cpu1 = cpu_push_byte cpu (ucast (drop_bit 8 w16))
      in cpu_push_byte cpu1 (ucast w16))"

definition cpu_pull_byte :: "cpu_t \<Rightarrow> 8 word \<times> cpu_t" where
  "cpu_pull_byte cpu =
     (let cpu1 = cpu\<lparr>state := (state cpu)\<lparr>sp := sp (state cpu) + 1\<rparr>\<rparr>
      in (mem_get_byte_direct cpu1 (0x0100 + ucast (sp (state cpu1))), cpu1))"

text \<open>
  \<^verbatim>\<open>_cpu_pull_word\<close> returns
  \<^verbatim>\<open>(uint16_t) _cpu_pull_byte(cpu) | ((uint16_t) _cpu_pull_byte(cpu) << 8)\<close>. Both
  operands of \<^verbatim>\<open>|\<close> call \<^verbatim>\<open>_cpu_pull_byte\<close>, and C leaves the order in which the two
  operands are evaluated unspecified. The order is therefore an input of the model: with
  \<open>LeftFirst\<close> the first byte pulled is the low byte of the result, with \<open>RightFirst\<close>
  the first byte pulled is shifted and becomes the high byte.
\<close>

datatype operand_order = LeftFirst | RightFirst

definition cpu_pull_word :: "operand_order \<Rightarrow> cpu_t \<Rightarrow> 16 word \<times> cpu_t" where
  "cpu_pull_word order cpu =
     (case order of
        LeftFirst \<Rightarrow>
          (let (left, cpu1) = cpu_pull_byte cpu;
               (right, cpu2) = cpu_pull_byte cpu1
           in (ucast left OR push_bit 8 (ucast right), cpu2))
      | RightFirst \<Rightarrow>
          (let (right, cpu1) = cpu_pull_byte cpu;
               (left, cpu2) = cpu_pull_byte cpu1
           in (ucast left OR push_bit 8 (ucast right), cpu2)))"

definition cpu_stack_free :: "cpu_t \<Rightarrow> 8 word" where
  "cpu_stack_free cpu = sp (state cpu)"

definition cpu_stack_used :: "cpu_t \<Rightarrow> 8 word" where
  "cpu_stack_used cpu = 0xff - sp (state cpu)"

section \<open>Instruction dispatch\<close>

text \<open>
  Modelled from the spec: \<^verbatim>\<open>cpu.h\<close> with the error macros is missing. The spec names
  three error kinds, all nonzero; \<open>EWM_CPU_OK\<close> stands for the return value \<^verbatim>\<open>0\<close>.
\<close>

datatype ewm_cpu_err =
    EWM_CPU_OK
  | EWM_CPU_ERR_UNIMPLEMENTED_INSTRUCTION
  | EWM_CPU_ERR_STACK_OVERFLOW
  | EWM_CPU_ERR_STACK_UNDERFLOW

text \<open>
  Modelled from the spec: \<^verbatim>\<open>ins.h\<close> with the opcode descriptor and the table
  \<^verbatim>\<open>instructions\<close> is missing. A descriptor has a mnemonic, a length in bytes, a
  signed stack headroom and a handler that may be absent (\<^verbatim>\<open>NULL\<close>). The dispatcher
  casts the handler to a function of no operand, a byte operand or a word operand
  according to the length, so a handler is a function of the operand it is given and of
  the processor. The table is a parameter of the dispatcher.
\<close>

datatype operand = NoOperand | ByteOperand "8 word" | WordOperand "16 word"

record cpu_instruction_t =
  name :: string
  bytes :: "8 word"
  stack :: "8 word"
  handler :: "(operand \<Rightarrow> cpu_t \<Rightarrow> cpu_t) option"

type_synonym instruction_table = "8 word \<Rightarrow> cpu_instruction_t"

text \<open>
  \<^verbatim>\<open>cpu_execute_instruction\<close>. Both stack comparisons are made in \<^verbatim>\<open>int\<close> after the
  integer promotions: the unsigned byte on the left, the signed headroom on the right.
  \<open>execute\<close> is the part of the body after the two guards: it remembers the program
  counter, advances it, and switches on the length; a length other than 1, 2 or 3 calls
  no handler. The tracer only renders text for the diagnostic stream and writes no
  processor state or memory; the model leaves the rendered text out. The result is the
  returned code and the processor after the call.
\<close>

definition cpu_execute_instruction :: "instruction_table \<Rightarrow> cpu_t \<Rightarrow> ewm_cpu_err \<times> cpu_t" where
  "cpu_execute_instruction instructions cpu =
     (let ins = instructions (mem_get_byte cpu (pc (state cpu)));
          execute = (\<lambda>h.
            let pc0 = pc (state cpu);
                cpu1 = (if pc0 = pc (state cpu)
                        then cpu\<lparr>state := (state cpu)\<lparr>pc := pc (state cpu) + ucast (bytes ins)\<rparr>\<rparr>
                        else cpu)
            in (EWM_CPU_OK,
                if bytes ins = 1 then h NoOperand cpu1
                else if bytes ins = 2 then h (ByteOperand (mem_get_byte cpu1 (pc0 + 1))) cpu1
                else if bytes ins = 3 then h (WordOperand (mem_get_word cpu1 (pc0 + 1))) cpu1
                else cpu1))
      in case handler ins of
        None \<Rightarrow> (EWM_CPU_ERR_UNIMPLEMENTED_INSTRUCTION, cpu)
      | Some h \<Rightarrow>
          if strict cpu \<and> stack ins \<noteq> 0 then
            if 0 < sint (stack ins) then
              if uint (cpu_stack_free cpu) < sint (stack ins)
              then (EWM_CPU_ERR_STACK_OVERFLOW, cpu)
              else execute h
            else
              if uint (cpu_stack_used cpu) < - sint (stack ins)
              then (EWM_CPU_ERR_STACK_UNDERFLOW, cpu)
              else execute h
          else execute h)"

definition cpu_step :: "instruction_table \<Rightarrow> cpu_t \<Rightarrow> ewm_cpu_err \<times> cpu_t" where
  "cpu_step instructions cpu = cpu_execute_instruction instructions cpu"

section \<open>Reset and interrupts\<close>

text \<open>
  Modelled from the spec: the vector addresses of \<^verbatim>\<open>cpu.h\<close> are missing; the spec
  gives reset, IRQ and NMI as 0xFFFC, 0xFFFE and 0xFFFA.
\<close>

definition EWM_VECTOR_NMI :: "16 word" where "EWM_VECTOR_NMI = 0xfffa"
definition EWM_VECTOR_RES :: "16 word" where "EWM_VECTOR_RES = 0xfffc"
definition EWM_VECTOR_IRQ :: "16 word" where "EWM_VECTOR_IRQ = 0xfffe"

definition cpu_reset :: "cpu_t \<Rightarrow> cpu_t" where
  "cpu_reset cpu =
     cpu\<lparr>state := (state cpu)
       \<lparr>pc := mem_get_word cpu EWM_VECTOR_RES,
        a := 0x00, x := 0x00, y := 0x00,
        n := 0, v := 0, b := 0, d := 0, i := 1, z := 0, c := 0,
        sp := 0xff\<rparr>\<rparr>"

definition cpu_irq :: "cpu_t \<Rightarrow> ewm_cpu_err \<times> cpu_t" where
  "cpu_irq cpu =
     (if strict cpu \<and> cpu_stack_free cpu < 3 then (EWM_CPU_ERR_STACK_OVERFLOW, cpu)
      else
        (let cpu1 = cpu_push_word cpu (pc (state cpu));
             cpu2 = cpu_push_byte cpu1 (cpu_get_status cpu1);
             cpu3 = cpu2\<lparr>state := (state cpu2)\<lparr>i := 1\<rparr>\<rparr>;
             cpu4 = cpu3\<lparr>state := (state cpu3)\<lparr>pc := mem_get_word cpu3 EWM_VECTOR_IRQ\<rparr>\<rparr>
         in (EWM_CPU_OK, cpu4)))"

definition cpu_nmi :: "cpu_t \<Rightarrow> ewm_cpu_err \<times> cpu_t" where
  "cpu_nmi cpu =
     (if strict cpu \<and> cpu_stack_free cpu < 3 then (EWM_CPU_ERR_STACK_OVERFLOW, cpu)
      else
        (let cpu1 = cpu_push_word cpu (pc (state cpu));
             cpu2 = cpu_push_byte cpu1 (cpu_get_status cpu1);
             cpu3 = cpu2\<lparr>state := (state cpu2)\<lparr>i := 1\<rparr>\<rparr>;
             cpu4 = cpu3\<lparr>state := (state cpu3)\<lparr>pc := mem_get_word cpu3 EWM_VECTOR_NMI\<rparr>\<rparr>
         in (EWM_CPU_OK, cpu4)))"

section \<open>Run loop\<close>

text \<open>
  The \<^verbatim>\<open>while\<close> loop of \<^verbatim>\<open>cpu_run\<close>, with its two variables: the processor and the
  64-bit \<^verbatim>\<open>instruction_count\<close>. The loop has no bound, so not returning is \<open>None\<close>.
\<close>

partial_function (option) cpu_run_loop ::
  "instruction_table \<Rightarrow> cpu_t \<Rightarrow> 64 word \<Rightarrow> (ewm_cpu_err \<times> 64 word \<times> cpu_t) option" where
  "cpu_run_loop instructions cpu instruction_count =
     (case cpu_execute_instruction instructions cpu of (err, cpu') \<Rightarrow>
        if err = EWM_CPU_OK then cpu_run_loop instructions cpu' (instruction_count + 1)
        else Some (err, instruction_count, cpu'))"

text \<open>
  \<^verbatim>\<open>cpu_run\<close> returns \<^verbatim>\<open>err\<close> alone; the caller also sees the processor it passed by
  pointer. The count goes to \<^verbatim>\<open>stderr\<close> only: \<open>cpu_run_stderr\<close> is the number printed.
\<close>

definition cpu_run :: "instruction_table \<Rightarrow> cpu_t \<Rightarrow> (ewm_cpu_err \<times> cpu_t) option" where
  "cpu_run instructions cpu =
     map_option (\<lambda>(err, instruction_count, cpu'). (err, cpu')) (cpu_run_loop instructions cpu 0)"

definition cpu_run_stderr :: "instruction_table \<Rightarrow> cpu_t \<Rightarrow> 64 word option" where
  "cpu_run_stderr instructions cpu =
     map_option (\<lambda>(err, instruction_count, cpu'). instruction_count) (cpu_run_loop instructions cpu 0)"

definition cpu_boot :: "instruction_table \<Rightarrow> cpu_t \<Rightarrow> (ewm_cpu_err \<times> cpu_t) option" where
  "cpu_boot instructions cpu = cpu_run instructions (cpu_reset cpu)"

section \<open>A sample opcode table and memory image\<close>

text \<open>
  The opcode table is external to \<^verbatim>\<open>cpu.c\<close>. The worked examples below use a small
  table of their own: a one-byte instruction that does nothing, a three-byte jump, a
  two-byte load of X, a one-byte instruction declaring three bytes of stack headroom, a
  one-byte instruction declaring one byte to pull, and no handler for any other opcode.
\<close>

definition example_jump :: "operand \<Rightarrow> cpu_t \<Rightarrow> cpu_t" where
  "example_jump oper cpu =
     (case oper of WordOperand w16 \<Rightarrow> cpu\<lparr>state := (state cpu)\<lparr>pc := w16\<rparr>\<rparr> | _ \<Rightarrow> cpu)"

definition example_load_x :: "operand \<Rightarrow> cpu_t \<Rightarrow> cpu_t" where
  "example_load_x oper cpu =
     (case oper of ByteOperand v8 \<Rightarrow> cpu\<lparr>state := (state cpu)\<lparr>x := v8\<rparr>\<rparr> | _ \<Rightarrow> cpu)"

definition example_push3 :: "operand \<Rightarrow> cpu_t \<Rightarrow> cpu_t" where
  "example_push3 oper cpu = cpu_push_byte (cpu_push_word cpu (pc (state cpu))) (cpu_get_status cpu)"

definition example_pull1 :: "operand \<Rightarrow> cpu_t \<Rightarrow> cpu_t" where
  "example_pull1 oper cpu =
     (case cpu_pull_byte cpu of (v8, cpu1) \<Rightarrow> cpu1\<lparr>state := (state cpu1)\<lparr>a := v8\<rparr>\<rparr>)"

definition example_instructions :: instruction_table where
  "example_instructions opcode =
     (if opcode = 0xea then
        \<lparr>name = ''NOP'', bytes = 1, stack = 0, handler = Some (\<lambda>oper cpu. cpu)\<rparr>
      else if opcode = 0x4c then
        \<lparr>name = ''JMP'', bytes = 3, stack = 0, handler = Some example_jump\<rparr>
      else if opcode = 0xa2 then
        \<lparr>name = ''LDX'', bytes = 2, stack = 0, handler = Some example_load_x\<rparr>
      else if opcode = 0x00 then
        \<lparr>name = ''BRK'', bytes = 1, stack = 3, handler = Some example_push3\<rparr>
      else if opcode = 0x68 then
        \<lparr>name = ''PLA'', bytes = 1, stack = - 1, handler = Some example_pull1\<rparr>
      else
        \<lparr>name = ''???'', bytes = 1, stack = 0, handler = None\<rparr>)"

text \<open>
  The sample image: the do-nothing instruction at 0x0000, the jump to 0x1234 at 0x0010,
  the load of X with 0x5a at 0x0018, the three-byte pusher at 0x0020, the puller at
  0x0030, the IRQ vector pointing to 0x8000 and the NMI vector to 0x9000; every other
  byte is 0x02, an opcode without handler.
\<close>

definition example_memory :: "16 word \<Rightarrow> 8 word" where
  "example_memory =
     (\<lambda>_. 0x02)
       (0x0000 := 0xea,
        0x0010 := 0x4c, 0x0011 := 0x34, 0x0012 := 0x12,
        0x0018 := 0xa2, 0x0019 := 0x5a,
        0x0020 := 0x00,
        0x0030 := 0x68,
        0xfffa := 0x00, 0xfffb := 0x90,
        0xfffe := 0x00, 0xffff := 0x80)"

definition example_cpu :: "16 word \<Rightarrow> 8 word \<Rightarrow> bool \<Rightarrow> cpu_t" where
  "example_cpu pc0 sp0 strict0 =
     cpu_init\<lparr>state := (state cpu_init)\<lparr>pc := pc0, sp := sp0\<rparr>,
              strict := strict0, memory := example_memory\<rparr>"

text \<open>The processor after \<open>k\<close> calls of the dispatcher.\<close>

primrec cpu_run_state :: "instruction_table \<Rightarrow> nat \<Rightarrow> cpu_t \<Rightarrow> cpu_t" where
  "cpu_run_state instructions 0 cpu = cpu"
| "cpu_run_state instructions (Suc k) cpu =
     cpu_run_state instructions k (snd (cpu_execute_instruction instructions cpu))"

section \<open>Auxiliary facts\<close>

lemma status_bit_if: "status_bit flag k = (if flag \<noteq> 0 then push_bit k 1 else 0)"
  by (simp add: status_bit_def)

lemma unat_byte_less: "unat (k::8 word) < 256"
  using unsigned_less [of k, where 'a=nat] by simp

lemma stack_addr_unat: "unat (0x100 + ucast (k::8 word) :: 16 word) = 256 + unat k"
proof -
  have lt: "unat k < 256" by (rule unat_byte_less)
  then have "unat k < 65536" by simp
  then have "unat (ucast k :: 16 word) = unat k"
    by (simp add: unsigned_ucast_eq take_bit_nat_eq_self_iff)
  with lt show ?thesis by (simp add: unat_word_ariths)
qed

lemma stack_addr_inj [simp]:
  "(0x100 + ucast (k::8 word) :: 16 word) = 0x100 + ucast (m::8 word) \<longleftrightarrow> k = m"
proof
  assume "(0x100 + ucast k :: 16 word) = 0x100 + ucast m"
  then have "unat (0x100 + ucast k :: 16 word) = unat (0x100 + ucast m :: 16 word)" by simp
  then show "k = m" by (simp add: stack_addr_unat word_unat_eq_iff)
qed simp

lemma ucast_byte_inj [simp]:
  "(ucast (k::8 word) :: 16 word) = ucast (m::8 word) \<longleftrightarrow> k = m"
  using stack_addr_inj [of k m] by simp

lemma stack_addr_less: "unat (0x100 + ucast (k::8 word) :: 16 word) < 512"
  using unat_byte_less [of k] by (simp add: stack_addr_unat)

lemma stack_addr_not_vector [simp]:
  "(0x100 + ucast (k::8 word) :: 16 word) \<noteq> 0xfffa"
  "(0x100 + ucast (k::8 word) :: 16 word) \<noteq> 0xfffb"
  "(0x100 + ucast (k::8 word) :: 16 word) \<noteq> 0xfffe"
  "(0x100 + ucast (k::8 word) :: 16 word) \<noteq> 0xffff"
  using stack_addr_less [of k] by auto

lemma vector_not_stack_addr [simp]:
  "0xfffa \<noteq> (0x100 + ucast (k::8 word) :: 16 word)"
  "0xfffb \<noteq> (0x100 + ucast (k::8 word) :: 16 word)"
  "0xfffe \<noteq> (0x100 + ucast (k::8 word) :: 16 word)"
  "0xffff \<noteq> (0x100 + ucast (k::8 word) :: 16 word)"
  using stack_addr_less [of k] by auto

lemma ucast_word_split:
  "ucast (ucast (w::16 word) :: 8 word) OR push_bit 8 (ucast (ucast (drop_bit 8 w) :: 8 word)) = w"
  by (rule bit_word_eqI) (auto simp: bit_simps)

lemma cpu_push_byte_eq:
  "cpu_push_byte cpu v8 =
     cpu\<lparr>memory := (memory cpu)(0x0100 + ucast (sp (state cpu)) := v8),
         state := (state cpu)\<lparr>sp := sp (state cpu) - 1\<rparr>\<rparr>"
  by (simp add: cpu_push_byte_def mem_set_byte_direct_def Let_def)

lemma cpu_pull_byte_eq:
  "cpu_pull_byte cpu =
     (memory cpu (0x0100 + ucast (sp (state cpu) + 1)),
      cpu\<lparr>state := (state cpu)\<lparr>sp := sp (state cpu) + 1\<rparr>\<rparr>)"
  by (simp add: cpu_pull_byte_def mem_get_byte_direct_def Let_def)

lemma cpu_pull_push_byte:
  "cpu_pull_byte (cpu_push_byte cpu v8)
     = (v8, cpu\<lparr>memory := (memory cpu)(0x0100 + ucast (sp (state cpu)) := v8)\<rparr>)"
  by (simp add: cpu_pull_byte_eq cpu_push_byte_eq)

lemma cpu_pull_push_word_left_first:
  "cpu_pull_word LeftFirst (cpu_push_word cpu w16)
     = (w16, cpu\<lparr>memory := (memory cpu)
                 (0x0100 + ucast (sp (state cpu)) := ucast (drop_bit 8 w16),
                  0x0100 + ucast (sp (state cpu) - 1) := ucast w16)\<rparr>)"
  by (simp add: cpu_pull_word_def cpu_push_word_def cpu_pull_byte_eq cpu_push_byte_eq
      Let_def ucast_word_split)

lemma cpu_pull_push_word_right_first:
  "cpu_pull_word RightFirst (cpu_push_word cpu w16)
     = (ucast (ucast (drop_bit 8 w16) :: 8 word) OR push_bit 8 (ucast (ucast w16 :: 8 word)),
        cpu\<lparr>memory := (memory cpu)
                 (0x0100 + ucast (sp (state cpu)) := ucast (drop_bit 8 w16),
                  0x0100 + ucast (sp (state cpu) - 1) := ucast w16)\<rparr>)"
  by (simp add: cpu_pull_word_def cpu_push_word_def cpu_pull_byte_eq cpu_push_byte_eq
      Let_def)

lemma cpu_get_status_frame [simp]:
  "cpu_get_status (cpu\<lparr>memory := m, state := (state cpu)\<lparr>sp := k\<rparr>\<rparr>) = cpu_get_status cpu"
  by (simp add: cpu_get_status_def)

lemma cpu_irq_ok:
  assumes "\<not> (strict cpu \<and> sp (state cpu) < 3)"
  shows "cpu_irq cpu =
    (EWM_CPU_OK,
     cpu\<lparr>memory := (memory cpu)
           (0x0100 + ucast (sp (state cpu)) := ucast (drop_bit 8 (pc (state cpu))),
            0x0100 + ucast (sp (state cpu) - 1) := ucast (pc (state cpu)),
            0x0100 + ucast (sp (state cpu) - 2) := cpu_get_status cpu),
         state := (state cpu)
           \<lparr>sp := sp (state cpu) - 3, i := 1, pc := mem_get_word cpu EWM_VECTOR_IRQ\<rparr>\<rparr>)"
  using assms
  by (simp add: cpu_irq_def cpu_stack_free_def cpu_push_word_def cpu_push_byte_eq Let_def
      mem_get_word_def mem_get_byte_def EWM_VECTOR_IRQ_def)

lemma cpu_nmi_ok:
  assumes "\<not> (strict cpu \<and> sp (state cpu) < 3)"
  shows "cpu_nmi cpu =
    (EWM_CPU_OK,
     cpu\<lparr>memory := (memory cpu)
           (0x0100 + ucast (sp (state cpu)) := ucast (drop_bit 8 (pc (state cpu))),
            0x0100 + ucast (sp (state cpu) - 1) := ucast (pc (state cpu)),
            0x0100 + ucast (sp (state cpu) - 2) := cpu_get_status cpu),
         state := (state cpu)
           \<lparr>sp := sp (state cpu) - 3, i := 1, pc := mem_get_word cpu EWM_VECTOR_NMI\<rparr>\<rparr>)"
  using assms
  by (simp add: cpu_nmi_def cpu_stack_free_def cpu_push_word_def cpu_push_byte_eq Let_def
      mem_get_word_def mem_get_byte_def EWM_VECTOR_NMI_def)

lemma cpu_irq_strict_overflow:
  "strict cpu \<and> sp (state cpu) < 3 \<Longrightarrow> cpu_irq cpu = (EWM_CPU_ERR_STACK_OVERFLOW, cpu)"
  by (simp add: cpu_irq_def cpu_stack_free_def)

lemma cpu_nmi_strict_overflow:
  "strict cpu \<and> sp (state cpu) < 3 \<Longrightarrow> cpu_nmi cpu = (EWM_CPU_ERR_STACK_OVERFLOW, cpu)"
  by (simp add: cpu_nmi_def cpu_stack_free_def)

lemma uint_stack_used: "uint (cpu_stack_used cpu) = 255 - uint (sp (state cpu))"
proof -
  have "uint (sp (state cpu)) \<le> uint (0xff :: 8 word)"
    using uint_lt2p [of "sp (state cpu)"] by simp
  then have "uint (0xff - sp (state cpu)) = uint (0xff :: 8 word) - uint (sp (state cpu))"
    by (simp only: uint_sub_lem)
  then show ?thesis by (simp add: cpu_stack_used_def)
qed

lemma cpu_execute_error_unchanged:
  "fst (cpu_execute_instruction instructions cpu) \<noteq> EWM_CPU_OK \<Longrightarrow>
   snd (cpu_execute_instruction instructions cpu) = cpu"
  by (auto simp add: cpu_execute_instruction_def Let_def split: option.splits if_splits)

subsection \<open>The run loop unfolded\<close>

lemma cpu_run_loop_ok:
  "fst (cpu_execute_instruction instructions cpu) = EWM_CPU_OK \<Longrightarrow>
   cpu_run_loop instructions cpu cnt
     = cpu_run_loop instructions (snd (cpu_execute_instruction instructions cpu)) (cnt + 1)"
  by (subst cpu_run_loop.simps) (simp add: split_beta)

lemma cpu_run_loop_err:
  "fst (cpu_execute_instruction instructions cpu) \<noteq> EWM_CPU_OK \<Longrightarrow>
   cpu_run_loop instructions cpu cnt
     = Some (fst (cpu_execute_instruction instructions cpu), cnt,
             snd (cpu_execute_instruction instructions cpu))"
  by (subst cpu_run_loop.simps) (simp add: split_beta)

lemma cpu_run_loop_steps:
  "(\<And>k. k < m \<Longrightarrow>
      fst (cpu_execute_instruction instructions (cpu_run_state instructions k cpu)) = EWM_CPU_OK)
   \<Longrightarrow> cpu_run_loop instructions cpu cnt
       = cpu_run_loop instructions (cpu_run_state instructions m cpu) (cnt + of_nat m)"
proof (induction m arbitrary: cpu cnt)
  case 0
  show ?case by simp
next
  case (Suc m)
  from Suc.prems [of 0] have ok0: "fst (cpu_execute_instruction instructions cpu) = EWM_CPU_OK"
    by simp
  have "cpu_run_loop instructions (snd (cpu_execute_instruction instructions cpu)) (cnt + 1)
      = cpu_run_loop instructions
          (cpu_run_state instructions m (snd (cpu_execute_instruction instructions cpu)))
          (cnt + 1 + of_nat m)"
  proof (rule Suc.IH)
    fix k assume "k < m"
    then have "Suc k < Suc m" by simp
    from Suc.prems [OF this]
    show "fst (cpu_execute_instruction instructions
             (cpu_run_state instructions k (snd (cpu_execute_instruction instructions cpu))))
          = EWM_CPU_OK" by simp
  qed
  moreover have "cnt + 1 + of_nat m = cnt + of_nat (Suc m)" by (simp add: ac_simps)
  ultimately show ?case using ok0 by (simp add: cpu_run_loop_ok)
qed

lemma cpu_run_loop_first_error:
  assumes "\<forall>k<m. fst (cpu_execute_instruction instructions (cpu_run_state instructions k cpu))
                    = EWM_CPU_OK"
    and "cpu_execute_instruction instructions (cpu_run_state instructions m cpu) = (err, cpu')"
    and "err \<noteq> EWM_CPU_OK"
  shows "cpu_run_loop instructions cpu 0 = Some (err, of_nat m, cpu')"
proof -
  have "cpu_run_loop instructions cpu 0
      = cpu_run_loop instructions (cpu_run_state instructions m cpu) (0 + of_nat m)"
    using assms(1) by (intro cpu_run_loop_steps) simp
  also have "\<dots> = Some (err, of_nat m, cpu')"
    using assms(2,3) by (simp add: cpu_run_loop_err)
  finally show ?thesis .
qed

text \<open>Whenever the loop returns, some call of the dispatcher was the first to fail.\<close>

lemma cpu_run_loop_SomeD:
  assumes "cpu_run_loop instructions cpu cnt = Some r"
  shows "\<exists>m. (\<forall>k<m. fst (cpu_execute_instruction instructions (cpu_run_state instructions k cpu))
                    = EWM_CPU_OK)
     \<and> fst (cpu_execute_instruction instructions (cpu_run_state instructions m cpu)) \<noteq> EWM_CPU_OK
     \<and> r = (fst (cpu_execute_instruction instructions (cpu_run_state instructions m cpu)),
            cnt + of_nat m, cpu_run_state instructions m cpu)"
  using assms
proof (induct rule: cpu_run_loop.raw_induct [rotated 1, consumes 1, case_names body])
  case (body loop instructions cpu cnt r)
  let ?e = "cpu_execute_instruction instructions cpu"
  from body(2) have unfolded:
    "(if fst ?e = EWM_CPU_OK then loop instructions (snd ?e) (cnt + 1)
      else Some (fst ?e, cnt, snd ?e)) = Some r"
    by (simp only: split_beta)
  show ?case
  proof (cases "fst ?e = EWM_CPU_OK")
    case False
    with unfolded have "r = (fst ?e, cnt, snd ?e)" by simp
    with False have
      "(\<forall>k<0. fst (cpu_execute_instruction instructions (cpu_run_state instructions k cpu))
                = EWM_CPU_OK)
       \<and> fst (cpu_execute_instruction instructions (cpu_run_state instructions 0 cpu)) \<noteq> EWM_CPU_OK
       \<and> r = (fst (cpu_execute_instruction instructions (cpu_run_state instructions 0 cpu)),
              cnt + of_nat 0, cpu_run_state instructions 0 cpu)"
      by (simp add: cpu_execute_error_unchanged)
    then show ?thesis by (rule exI)
  next
    case True
    with unfolded have "loop instructions (snd ?e) (cnt + 1) = Some r" by simp
    from body(1) [OF this] obtain m where
      m1: "\<forall>k<m. fst (cpu_execute_instruction instructions
              (cpu_run_state instructions k (snd ?e))) = EWM_CPU_OK"
      and m2: "fst (cpu_execute_instruction instructions (cpu_run_state instructions m (snd ?e)))
               \<noteq> EWM_CPU_OK"
      and m3: "r = (fst (cpu_execute_instruction instructions
                           (cpu_run_state instructions m (snd ?e))),
                    cnt + 1 + of_nat m, cpu_run_state instructions m (snd ?e))"
      by (elim exE conjE)
    have "\<forall>k<Suc m. fst (cpu_execute_instruction instructions
              (cpu_run_state instructions k cpu)) = EWM_CPU_OK"
    proof (intro allI impI)
      fix k assume "k < Suc m"
      show "fst (cpu_execute_instruction instructions (cpu_run_state instructions k cpu))
            = EWM_CPU_OK"
      proof (cases k)
        case 0 with True show ?thesis by simp
      next
        case (Suc j)
        with \<open>k < Suc m\<close> m1 show ?thesis by simp
      qed
    qed
    moreover have "cnt + 1 + of_nat m = cnt + of_nat (Suc m)" by (simp add: ac_simps)
    ultimately have
      "(\<forall>k<Suc m. fst (cpu_execute_instruction instructions
              (cpu_run_state instructions k cpu)) = EWM_CPU_OK)
       \<and> fst (cpu_execute_instruction instructions (cpu_run_state instructions (Suc m) cpu))
           \<noteq> EWM_CPU_OK
       \<and> r = (fst (cpu_execute_instruction instructions (cpu_run_state instructions (Suc m) cpu)),
              cnt + of_nat (Suc m), cpu_run_state instructions (Suc m) cpu)"
      using m2 m3 by simp
    then show ?thesis by (rule exI)
  qed
qed

text \<open>A program whose every instruction succeeds keeps \<^verbatim>\<open>cpu_run\<close> from returning.\<close>

lemma cpu_run_never_returns:
  assumes "\<forall>k. fst (cpu_execute_instruction instructions (cpu_run_state instructions k cpu))
                    = EWM_CPU_OK"
  shows "cpu_run instructions cpu = None"
proof (cases "cpu_run_loop instructions cpu 0")
  case None
  then show ?thesis by (simp add: cpu_run_def)
next
  case (Some r)
  from cpu_run_loop_SomeD [OF this] assms show ?thesis by auto
qed

subsection \<open>The sample table and image evaluated\<close>

lemma example_memory_simps:
  "example_memory 0x0000 = 0xea" "example_memory 0x0001 = 0x02"
  "example_memory 0x0010 = 0x4c" "example_memory 0x0011 = 0x34" "example_memory 0x0012 = 0x12"
  "example_memory 0x0018 = 0xa2" "example_memory 0x0019 = 0x5a"
  "example_memory 0x0020 = 0x00" "example_memory 0x0030 = 0x68"
  "example_memory 0xfffa = 0x00" "example_memory 0xfffb = 0x90"
  "example_memory 0xfffe = 0x00" "example_memory 0xffff = 0x80"
  by (simp_all add: example_memory_def)

lemma example_cpu_simps [simp]:
  "pc (state (example_cpu pc0 sp0 strict0)) = pc0"
  "sp (state (example_cpu pc0 sp0 strict0)) = sp0"
  "strict (example_cpu pc0 sp0 strict0) = strict0"
  "memory (example_cpu pc0 sp0 strict0) = example_memory"
  by (simp_all add: example_cpu_def)

lemma example_execute_nop:
  "cpu_execute_instruction example_instructions (example_cpu 0x0000 0xff False)
     = (EWM_CPU_OK, example_cpu 0x0001 0xff False)"
  by (simp add: cpu_execute_instruction_def Let_def mem_get_byte_def
      example_memory_simps example_instructions_def)
    (simp add: example_cpu_def)

lemma example_execute_unimplemented:
  "cpu_execute_instruction example_instructions (example_cpu 0x0001 0xff False)
     = (EWM_CPU_ERR_UNIMPLEMENTED_INSTRUCTION, example_cpu 0x0001 0xff False)"
  by (simp add: cpu_execute_instruction_def Let_def mem_get_byte_def
      example_memory_simps example_instructions_def)

section \<open>Status byte round trip\<close>

text \<open>
  Packing always sets bits 5 and 4, because the constant \<^verbatim>\<open>0x30\<close> is or-ed in.
  Unpacking the packed byte reproduces N, V, D, I, Z and C, and leaves B set.
\<close>

lemma cpu_get_status_fixed_bits: "bit (cpu_get_status cpu) 5 \<and> bit (cpu_get_status cpu) 4"
  by (simp add: cpu_get_status_def status_bit_if bit_simps)

lemma cpu_status_roundtrip_flags:
  "(n (state (cpu_set_status cpu (cpu_get_status cpu))) \<noteq> 0) = (n (state cpu) \<noteq> 0)"
  "(v (state (cpu_set_status cpu (cpu_get_status cpu))) \<noteq> 0) = (v (state cpu) \<noteq> 0)"
  "(d (state (cpu_set_status cpu (cpu_get_status cpu))) \<noteq> 0) = (d (state cpu) \<noteq> 0)"
  "(i (state (cpu_set_status cpu (cpu_get_status cpu))) \<noteq> 0) = (i (state cpu) \<noteq> 0)"
  "(z (state (cpu_set_status cpu (cpu_get_status cpu))) \<noteq> 0) = (z (state cpu) \<noteq> 0)"
  "(c (state (cpu_set_status cpu (cpu_get_status cpu))) \<noteq> 0) = (c (state cpu) \<noteq> 0)"
  "b (state (cpu_set_status cpu (cpu_get_status cpu))) \<noteq> 0"
  by (simp_all add: cpu_get_status_def cpu_set_status_def status_bit_if)

text \<open>
  C1. The status round trip is claimed to reproduce all seven flags, with bit 4 of the
  packed byte equal to B. On the zeroed processor B is clear, yet the packed byte is
  \<open>0x30\<close> with bit 4 set, and unpacking it sets B.
\<close>

theorem cpu_status_roundtrip_sets_b:
  "b (state cpu_init) = 0
   \<and> cpu_get_status cpu_init = 0x30
   \<and> bit (cpu_get_status cpu_init) 4
   \<and> b (state (cpu_set_status cpu_init (cpu_get_status cpu_init))) = 0x10"
  by (simp add: cpu_get_status_def cpu_set_status_def cpu_init_def status_bit_def)

section \<open>Strict-mode toggle\<close>

text \<open>
  C2. \<^verbatim>\<open>cpu_strict\<close> is claimed to store its argument. Called with \<open>False\<close> it leaves
  strict mode on, as it does when called with \<open>True\<close>.
\<close>

theorem cpu_strict_ignores_argument:
  "strict (cpu_strict cpu False) = True \<and> strict (cpu_strict cpu True) = True"
  by (simp add: cpu_strict_def)

section \<open>Reset\<close>

text \<open>
  C7. After reset the program counter is the little-endian word at the reset vector
  (0x1234 when the vector holds 0x34, 0x12), the stack pointer is 0xFF, the
  interrupt-disable flag is set, the other six flags are clear and A, X, Y are zero.
\<close>

theorem cpu_reset_state:
  "pc (state (cpu_reset cpu))
     = push_bit 8 (ucast (memory cpu 0xfffd)) OR ucast (memory cpu 0xfffc)
   \<and> pc (state (cpu_reset (cpu\<lparr>memory := (memory cpu)(0xfffc := 0x34, 0xfffd := 0x12)\<rparr>))) = 0x1234
   \<and> sp (state (cpu_reset cpu)) = 0xff
   \<and> i (state (cpu_reset cpu)) \<noteq> 0
   \<and> n (state (cpu_reset cpu)) = 0 \<and> v (state (cpu_reset cpu)) = 0
   \<and> b (state (cpu_reset cpu)) = 0 \<and> d (state (cpu_reset cpu)) = 0
   \<and> z (state (cpu_reset cpu)) = 0 \<and> c (state (cpu_reset cpu)) = 0
   \<and> a (state (cpu_reset cpu)) = 0 \<and> x (state (cpu_reset cpu)) = 0
   \<and> y (state (cpu_reset cpu)) = 0"
  by (simp add: cpu_reset_def mem_get_word_def mem_get_byte_def EWM_VECTOR_RES_def)

section \<open>Push and pull\<close>

text \<open>
  The byte half of the round trip holds for every processor: pulling after pushing returns
  the byte and restores the stack pointer, and a push decrements the stack pointer modulo
  256 without consulting strict mode, so at 0x00 it wraps to 0xFF.
\<close>

lemma push_pull_byte_roundtrip:
  "fst (cpu_pull_byte (cpu_push_byte cpu v8)) = v8
   \<and> sp (state (snd (cpu_pull_byte (cpu_push_byte cpu v8)))) = sp (state cpu)
   \<and> sp (state (cpu_push_byte cpu v8)) = sp (state cpu) - 1
   \<and> sp (state (cpu_push_byte (cpu\<lparr>state := (state cpu)\<lparr>sp := 0x00\<rparr>, strict := False\<rparr>) v8)) = 0xff"
  by (simp add: cpu_pull_push_byte) (simp add: cpu_push_byte_eq)

text \<open>
  The word half holds when the left operand of \<^verbatim>\<open>|\<close> is evaluated first; the stack
  pointer is restored under either order.
\<close>

lemma push_pull_word_left_first:
  "fst (cpu_pull_word LeftFirst (cpu_push_word cpu w16)) = w16
   \<and> sp (state (snd (cpu_pull_word order (cpu_push_word cpu w16)))) = sp (state cpu)"
  by (cases order) (simp_all add: cpu_pull_push_word_left_first cpu_pull_push_word_right_first)

text \<open>
  C8. The round trip is claimed for words as for bytes. When the right operand of
  \<^verbatim>\<open>|\<close> in \<^verbatim>\<open>_cpu_pull_word\<close> is evaluated first, an order C allows, pulling after
  pushing 0x1234 returns 0x3412 on every processor: the two bytes come back swapped.
  Under the other order the same call returns 0x1234.
\<close>

theorem pull_word_swaps_when_right_first:
  "fst (cpu_pull_word RightFirst (cpu_push_word cpu 0x1234)) = 0x3412
   \<and> fst (cpu_pull_word LeftFirst (cpu_push_word cpu 0x1234)) = 0x1234"
  by (simp add: cpu_pull_push_word_left_first cpu_pull_push_word_right_first)

section \<open>Dispatcher\<close>

text \<open>
  C9. An opcode whose descriptor has no handler makes the dispatcher return
  UnimplementedInstruction with the processor as it was: program counter, stack pointer,
  registers, flags and memory are unchanged. The single-step entry point does the same.
\<close>

theorem cpu_execute_unimplemented:
  assumes "handler (instructions (mem_get_byte cpu (pc (state cpu)))) = None"
  shows "cpu_execute_instruction instructions cpu = (EWM_CPU_ERR_UNIMPLEMENTED_INSTRUCTION, cpu)
    \<and> cpu_step instructions cpu = (EWM_CPU_ERR_UNIMPLEMENTED_INSTRUCTION, cpu)"
  using assms by (simp add: cpu_execute_instruction_def cpu_step_def Let_def)

text \<open>The byte 0x02 at address 0x0001 of the sample image has no handler.\<close>

theorem cpu_execute_unimplemented_witness:
  "handler (example_instructions (mem_get_byte (example_cpu 0x0001 0xff False)
       (pc (state (example_cpu 0x0001 0xff False))))) = None
   \<and> cpu_execute_instruction example_instructions (example_cpu 0x0001 0xff False)
       = (EWM_CPU_ERR_UNIMPLEMENTED_INSTRUCTION, example_cpu 0x0001 0xff False)"
proof -
  have h: "handler (example_instructions (mem_get_byte (example_cpu 0x0001 0xff False)
       (pc (state (example_cpu 0x0001 0xff False))))) = None"
    by (simp add: mem_get_byte_def example_memory_simps example_instructions_def)
  from cpu_execute_unimplemented [of example_instructions "example_cpu 0x0001 0xff False"] h
  show ?thesis by simp
qed

text \<open>
  C5. In strict mode, for an opcode that has a handler (the dispatcher tests for a missing
  handler first): a descriptor with positive headroom fails with StackOverflow when the
  stack pointer, read as the free space, is below the headroom; a descriptor with negative
  headroom fails with StackUnderflow when the used space \<open>0xFF - SP\<close> is below its
  magnitude. Both leave the whole processor unchanged. With the stack pointer at 0x02 a
  headroom of 3 overflows.
\<close>

theorem strict_stack_guard:
  assumes "strict cpu"
    and "ins = instructions (mem_get_byte cpu (pc (state cpu)))"
    and "handler ins \<noteq> None"
  shows "(0 < sint (stack ins) \<and> uint (sp (state cpu)) < sint (stack ins)
            \<longrightarrow> cpu_execute_instruction instructions cpu = (EWM_CPU_ERR_STACK_OVERFLOW, cpu))
       \<and> (sint (stack ins) < 0 \<and> 0xff - uint (sp (state cpu)) < - sint (stack ins)
            \<longrightarrow> cpu_execute_instruction instructions cpu = (EWM_CPU_ERR_STACK_UNDERFLOW, cpu))
       \<and> (stack ins = 3 \<and> sp (state cpu) = 0x02
            \<longrightarrow> cpu_execute_instruction instructions cpu = (EWM_CPU_ERR_STACK_OVERFLOW, cpu))"
proof -
  from assms(3) obtain h where h: "handler ins = Some h" by auto
  have nz: "sint (stack ins) \<noteq> 0 \<Longrightarrow> stack ins \<noteq> 0" by auto
  show ?thesis
    using assms(1,2) h nz
    by (auto simp add: cpu_execute_instruction_def Let_def cpu_stack_free_def uint_stack_used)
qed

text \<open>
  The pusher at 0x0020 with the stack pointer at 0x02, and the puller at 0x0030 with an
  empty stack, both in strict mode.
\<close>

theorem strict_stack_guard_witness:
  "strict (example_cpu 0x0020 0x02 True)
   \<and> stack (example_instructions (mem_get_byte (example_cpu 0x0020 0x02 True) 0x0020)) = 3
   \<and> cpu_execute_instruction example_instructions (example_cpu 0x0020 0x02 True)
       = (EWM_CPU_ERR_STACK_OVERFLOW, example_cpu 0x0020 0x02 True)
   \<and> sint (stack (example_instructions (mem_get_byte (example_cpu 0x0030 0xff True) 0x0030))) = - 1
   \<and> cpu_execute_instruction example_instructions (example_cpu 0x0030 0xff True)
       = (EWM_CPU_ERR_STACK_UNDERFLOW, example_cpu 0x0030 0xff True)"
proof -
  have push: "example_instructions (mem_get_byte (example_cpu 0x0020 0x02 True)
         (pc (state (example_cpu 0x0020 0x02 True))))
       = \<lparr>name = ''BRK'', bytes = 1, stack = 3, handler = Some example_push3\<rparr>"
    by (simp add: mem_get_byte_def example_memory_simps example_instructions_def)
  have pull: "example_instructions (mem_get_byte (example_cpu 0x0030 0xff True)
         (pc (state (example_cpu 0x0030 0xff True))))
       = \<lparr>name = ''PLA'', bytes = 1, stack = - 1, handler = Some example_pull1\<rparr>"
    by (simp add: mem_get_byte_def example_memory_simps example_instructions_def)
  from strict_stack_guard [of "example_cpu 0x0020 0x02 True"
      "\<lparr>name = ''BRK'', bytes = 1, stack = 3, handler = Some example_push3\<rparr>"
      example_instructions]
    strict_stack_guard [of "example_cpu 0x0030 0xff True"
      "\<lparr>name = ''PLA'', bytes = 1, stack = - 1, handler = Some example_pull1\<rparr>"
      example_instructions]
    push pull
  show ?thesis by simp
qed

text \<open>
  C4. When the dispatcher succeeds on a descriptor of length 1, 2 or 3, the result is the
  handler's result on the processor whose program counter is already advanced by the
  length. The handler is given no operand, the byte at the old \<open>PC + 1\<close>, or the
  little-endian word at the old \<open>PC + 1\<close> and \<open>PC + 2\<close>. Nothing touches the program
  counter after the handler.
\<close>

theorem cpu_execute_dispatch:
  assumes "cpu_execute_instruction instructions cpu = (EWM_CPU_OK, cpu')"
    and "ins = instructions (mem_get_byte cpu (pc (state cpu)))"
    and "bytes ins = 1 \<or> bytes ins = 2 \<or> bytes ins = 3"
    and "cpu1 = cpu\<lparr>state := (state cpu)\<lparr>pc := pc (state cpu) + ucast (bytes ins)\<rparr>\<rparr>"
  shows "\<exists>h. handler ins = Some h
       \<and> cpu' = h (if bytes ins = 1 then NoOperand
                   else if bytes ins = 2 then ByteOperand (memory cpu (pc (state cpu) + 1))
                   else WordOperand (push_bit 8 (ucast (memory cpu (pc (state cpu) + 2)))
                                       OR ucast (memory cpu (pc (state cpu) + 1)))) cpu1"
proof (cases "handler ins")
  case None
  with assms(1,2) show ?thesis
    by (simp add: cpu_execute_instruction_def Let_def)
next
  case (Some h)
  have w: "mem_get_word cpu1 (pc (state cpu) + 1)
      = push_bit 8 (ucast (memory cpu (pc (state cpu) + 2)))
          OR ucast (memory cpu (pc (state cpu) + 1))"
    by (simp add: mem_get_word_def mem_get_byte_def assms(4) add.assoc)
  have b8: "mem_get_byte cpu1 (pc (state cpu) + 1) = memory cpu (pc (state cpu) + 1)"
    by (simp add: mem_get_byte_def assms(4))
  from assms(1) Some assms(2) assms(3) have "cpu' =
     (if bytes ins = 1 then h NoOperand cpu1
      else if bytes ins = 2 then h (ByteOperand (mem_get_byte cpu1 (pc (state cpu) + 1))) cpu1
      else h (WordOperand (mem_get_word cpu1 (pc (state cpu) + 1))) cpu1)"
    unfolding assms(4)
    by (auto simp add: cpu_execute_instruction_def Let_def split: if_splits)
  with Some w b8 show ?thesis by auto
qed

text \<open>
  The jump at 0x0010 of the sample image: the handler receives the word 0x1234 and a
  processor whose program counter is 0x0013; the program counter it writes stays.
\<close>

theorem cpu_execute_dispatch_witness:
  "cpu_execute_instruction example_instructions (example_cpu 0x0010 0xff False)
     = (EWM_CPU_OK, example_cpu 0x1234 0xff False)
   \<and> bytes (example_instructions (mem_get_byte (example_cpu 0x0010 0xff False) 0x0010)) = 3
   \<and> handler (example_instructions (mem_get_byte (example_cpu 0x0010 0xff False) 0x0010))
       = Some example_jump
   \<and> example_cpu 0x1234 0xff False
       = example_jump (WordOperand 0x1234) (example_cpu 0x0013 0xff False)"
proof -
  have e: "cpu_execute_instruction example_instructions (example_cpu 0x0010 0xff False)
     = (EWM_CPU_OK, example_cpu 0x1234 0xff False)"
    by (simp add: cpu_execute_instruction_def Let_def mem_get_byte_def mem_get_word_def
        example_memory_simps example_instructions_def example_jump_def)
      (simp add: example_cpu_def)
  have i3: "example_instructions (mem_get_byte (example_cpu 0x0010 0xff False)
         (pc (state (example_cpu 0x0010 0xff False))))
       = \<lparr>name = ''JMP'', bytes = 3, stack = 0, handler = Some example_jump\<rparr>"
    by (simp add: mem_get_byte_def example_memory_simps example_instructions_def)
  have c1: "(example_cpu 0x0010 0xff False)\<lparr>state := (state (example_cpu 0x0010 0xff False))
       \<lparr>pc := pc (state (example_cpu 0x0010 0xff False)) + ucast (3 :: 8 word)\<rparr>\<rparr>
       = example_cpu 0x0013 0xff False"
    by (simp add: example_cpu_def)
  from cpu_execute_dispatch [of example_instructions "example_cpu 0x0010 0xff False"
      "example_cpu 0x1234 0xff False"
      "\<lparr>name = ''JMP'', bytes = 3, stack = 0, handler = Some example_jump\<rparr>"
      "example_cpu 0x0013 0xff False"] e i3 c1
  show ?thesis by (simp add: example_memory_simps mem_get_byte_def)
qed

section \<open>Interrupts\<close>

text \<open>
  C6. In non-strict mode, or in strict mode with a stack pointer of at least 3,
  \<^verbatim>\<open>cpu_irq\<close> succeeds: it stores the high byte of the program counter at the old
  stack slot, the low byte one below and the packed status byte (packed before the
  interrupt-disable flag is touched) one below that, lowers the stack pointer by 3, sets
  the interrupt-disable flag and loads the program counter from the IRQ vector. With the
  program counter at 0x0400, the three slots above the new stack pointer read, upward,
  the status byte, 0x00 and 0x04. In strict mode with a stack pointer below 3 it returns
  StackOverflow and the processor is unchanged.
\<close>

theorem cpu_irq_sequence:
  assumes "r = cpu_irq cpu"
  shows "(\<not> strict cpu \<or> 3 \<le> sp (state cpu) \<longrightarrow>
            fst r = EWM_CPU_OK
          \<and> sp (state (snd r)) = sp (state cpu) - 3
          \<and> memory (snd r) (0x0100 + ucast (sp (state cpu))) = ucast (drop_bit 8 (pc (state cpu)))
          \<and> memory (snd r) (0x0100 + ucast (sp (state cpu) - 1)) = ucast (pc (state cpu))
          \<and> memory (snd r) (0x0100 + ucast (sp (state cpu) - 2)) = cpu_get_status cpu
          \<and> i (state (snd r)) \<noteq> 0
          \<and> pc (state (snd r)) = mem_get_word cpu EWM_VECTOR_IRQ
          \<and> (pc (state cpu) = 0x0400 \<longrightarrow>
                memory (snd r) (0x0100 + ucast (sp (state (snd r)) + 1)) = cpu_get_status cpu
              \<and> memory (snd r) (0x0100 + ucast (sp (state (snd r)) + 2)) = 0x00
              \<and> memory (snd r) (0x0100 + ucast (sp (state (snd r)) + 3)) = 0x04))
       \<and> (strict cpu \<and> sp (state cpu) < 3 \<longrightarrow> r = (EWM_CPU_ERR_STACK_OVERFLOW, cpu))"
proof (cases "strict cpu \<and> sp (state cpu) < 3")
  case True
  then show ?thesis
    using assms cpu_irq_strict_overflow [of cpu] by (auto simp: not_le [symmetric])
next
  case False
  have r: "r = (EWM_CPU_OK,
     cpu\<lparr>memory := (memory cpu)
           (0x0100 + ucast (sp (state cpu)) := ucast (drop_bit 8 (pc (state cpu))),
            0x0100 + ucast (sp (state cpu) - 1) := ucast (pc (state cpu)),
            0x0100 + ucast (sp (state cpu) - 2) := cpu_get_status cpu),
         state := (state cpu)
           \<lparr>sp := sp (state cpu) - 3, i := 1, pc := mem_get_word cpu EWM_VECTOR_IRQ\<rparr>\<rparr>)"
    using assms cpu_irq_ok [OF False] by simp
  have hi: "ucast (drop_bit 8 (0x0400 :: 16 word)) = (0x04 :: 8 word)" by simp
  from False show ?thesis
    by (simp add: r hi)
qed

text \<open>
  The sample image with the program counter at 0x0400, an empty stack and only the carry
  flag set: the status byte is 0x31 and the IRQ vector leads to 0x8000. In strict mode
  with the stack pointer at 0x02 the interrupt is refused.
\<close>

theorem cpu_irq_sequence_witness:
  "fst (cpu_irq ((example_cpu 0x0400 0xff False)
           \<lparr>state := (state (example_cpu 0x0400 0xff False))\<lparr>c := 1\<rparr>\<rparr>)) = EWM_CPU_OK
   \<and> sp (state (snd (cpu_irq ((example_cpu 0x0400 0xff False)
           \<lparr>state := (state (example_cpu 0x0400 0xff False))\<lparr>c := 1\<rparr>\<rparr>)))) = 0xfc
   \<and> memory (snd (cpu_irq ((example_cpu 0x0400 0xff False)
           \<lparr>state := (state (example_cpu 0x0400 0xff False))\<lparr>c := 1\<rparr>\<rparr>))) 0x01fd = 0x31
   \<and> memory (snd (cpu_irq ((example_cpu 0x0400 0xff False)
           \<lparr>state := (state (example_cpu 0x0400 0xff False))\<lparr>c := 1\<rparr>\<rparr>))) 0x01fe = 0x00
   \<and> memory (snd (cpu_irq ((example_cpu 0x0400 0xff False)
           \<lparr>state := (state (example_cpu 0x0400 0xff False))\<lparr>c := 1\<rparr>\<rparr>))) 0x01ff = 0x04
   \<and> pc (state (snd (cpu_irq ((example_cpu 0x0400 0xff False)
           \<lparr>state := (state (example_cpu 0x0400 0xff False))\<lparr>c := 1\<rparr>\<rparr>)))) = 0x8000
   \<and> cpu_irq (example_cpu 0x0400 0x02 True)
       = (EWM_CPU_ERR_STACK_OVERFLOW, example_cpu 0x0400 0x02 True)"
proof -
  have st: "cpu_get_status ((example_cpu 0x0400 0xff False)
           \<lparr>state := (state (example_cpu 0x0400 0xff False))\<lparr>c := 1\<rparr>\<rparr>) = 0x31"
    by (simp add: cpu_get_status_def status_bit_def example_cpu_def cpu_init_def)
  have vec: "mem_get_word ((example_cpu 0x0400 0xff False)
           \<lparr>state := (state (example_cpu 0x0400 0xff False))\<lparr>c := 1\<rparr>\<rparr>) EWM_VECTOR_IRQ = 0x8000"
    by (simp add: mem_get_word_def mem_get_byte_def EWM_VECTOR_IRQ_def example_memory_simps)
  from cpu_irq_sequence [of "cpu_irq ((example_cpu 0x0400 0xff False)
           \<lparr>state := (state (example_cpu 0x0400 0xff False))\<lparr>c := 1\<rparr>\<rparr>)"
        "(example_cpu 0x0400 0xff False)
           \<lparr>state := (state (example_cpu 0x0400 0xff False))\<lparr>c := 1\<rparr>\<rparr>"]
    cpu_irq_sequence [of "cpu_irq (example_cpu 0x0400 0x02 True)" "example_cpu 0x0400 0x02 True"]
    st vec
  show ?thesis by simp
qed

text \<open>
  C10. A successful \<^verbatim>\<open>cpu_irq\<close> or \<^verbatim>\<open>cpu_nmi\<close> leaves A, X, Y and the flags N, V, B,
  D, Z, C as they were, lowers the stack pointer by 3 modulo 256, and changes memory
  at most at the three stack-page addresses it pushed to.
\<close>

theorem interrupt_frame:
  assumes "r = cpu_irq cpu \<or> r = cpu_nmi cpu"
    and "fst r = EWM_CPU_OK"
  shows "a (state (snd r)) = a (state cpu)
       \<and> x (state (snd r)) = x (state cpu)
       \<and> y (state (snd r)) = y (state cpu)
       \<and> n (state (snd r)) = n (state cpu)
       \<and> v (state (snd r)) = v (state cpu)
       \<and> b (state (snd r)) = b (state cpu)
       \<and> d (state (snd r)) = d (state cpu)
       \<and> z (state (snd r)) = z (state cpu)
       \<and> c (state (snd r)) = c (state cpu)
       \<and> sp (state (snd r)) = sp (state cpu) - 3
       \<and> (\<forall>addr. addr \<noteq> 0x0100 + ucast (sp (state cpu))
               \<and> addr \<noteq> 0x0100 + ucast (sp (state cpu) - 1)
               \<and> addr \<noteq> 0x0100 + ucast (sp (state cpu) - 2)
               \<longrightarrow> memory (snd r) addr = memory cpu addr)"
proof (cases "strict cpu \<and> sp (state cpu) < 3")
  case True
  with assms cpu_irq_strict_overflow [of cpu] cpu_nmi_strict_overflow [of cpu]
  show ?thesis by auto
next
  case False
  from assms(1) show ?thesis
  proof
    assume "r = cpu_irq cpu"
    then show ?thesis by (simp add: cpu_irq_ok [OF False])
  next
    assume "r = cpu_nmi cpu"
    then show ?thesis by (simp add: cpu_nmi_ok [OF False])
  qed
qed

text \<open>
  Both interrupts on the sample image with the stack pointer at 0x01, where the pushes
  wrap around the stack page: the stack pointer ends at 0xFE and the vectors keep their
  bytes.
\<close>

theorem interrupt_frame_witness:
  "fst (cpu_irq (example_cpu 0x0400 0x01 False)) = EWM_CPU_OK
   \<and> fst (cpu_nmi (example_cpu 0x0400 0x01 False)) = EWM_CPU_OK
   \<and> sp (state (snd (cpu_irq (example_cpu 0x0400 0x01 False)))) = 0xfe
   \<and> sp (state (snd (cpu_nmi (example_cpu 0x0400 0x01 False)))) = 0xfe
   \<and> a (state (snd (cpu_irq (example_cpu 0x0400 0x01 False)))) = 0
   \<and> c (state (snd (cpu_nmi (example_cpu 0x0400 0x01 False)))) = 0
   \<and> memory (snd (cpu_irq (example_cpu 0x0400 0x01 False))) 0xfffe = 0x00
   \<and> memory (snd (cpu_nmi (example_cpu 0x0400 0x01 False))) 0xfffb = 0x90"
proof -
  have ok: "fst (cpu_irq (example_cpu 0x0400 0x01 False)) = EWM_CPU_OK"
    "fst (cpu_nmi (example_cpu 0x0400 0x01 False)) = EWM_CPU_OK"
    by (simp_all add: cpu_irq_ok cpu_nmi_ok)
  have regs: "a (state (example_cpu 0x0400 0x01 False)) = 0"
    "c (state (example_cpu 0x0400 0x01 False)) = 0"
    by (simp_all add: example_cpu_def cpu_init_def)
  note irq_frame = interrupt_frame [of "cpu_irq (example_cpu 0x0400 0x01 False)"
        "example_cpu 0x0400 0x01 False", OF disjI1 [OF refl] ok(1)]
  note nmi_frame = interrupt_frame [of "cpu_nmi (example_cpu 0x0400 0x01 False)"
        "example_cpu 0x0400 0x01 False", OF disjI2 [OF refl] ok(2)]
  note irq_mem = irq_frame [THEN conjunct2, THEN conjunct2, THEN conjunct2, THEN conjunct2,
      THEN conjunct2, THEN conjunct2, THEN conjunct2, THEN conjunct2, THEN conjunct2,
      THEN conjunct2, THEN spec, of "0xfffe"]
  note nmi_mem = nmi_frame [THEN conjunct2, THEN conjunct2, THEN conjunct2, THEN conjunct2,
      THEN conjunct2, THEN conjunct2, THEN conjunct2, THEN conjunct2, THEN conjunct2,
      THEN conjunct2, THEN spec, of "0xfffb"]
  from irq_mem
  have m0: "memory (snd (cpu_irq (example_cpu 0x0400 0x01 False))) 0xfffe = 0x00"
    by (simp add: example_memory_simps)
  from nmi_mem
  have m1: "memory (snd (cpu_nmi (example_cpu 0x0400 0x01 False))) 0xfffb = 0x90"
    by (simp add: example_memory_simps)
  from irq_frame nmi_frame ok regs m0 m1
  show ?thesis by simp
qed

section \<open>Run loop\<close>

text \<open>
  C3, as stated, has \<^verbatim>\<open>cpu_run\<close> hand the instruction count to its caller. Started at
  0x0000 and at 0x0001 of the sample image, \<^verbatim>\<open>cpu_run\<close> returns the same error code and
  leaves the same processor, after one executed instruction in the first run and none
  in the second: what the caller receives does not carry the count.
\<close>

theorem cpu_run_count_not_returned:
  "cpu_run example_instructions (example_cpu 0x0000 0xff False)
     = Some (EWM_CPU_ERR_UNIMPLEMENTED_INSTRUCTION, example_cpu 0x0001 0xff False)
   \<and> cpu_run example_instructions (example_cpu 0x0001 0xff False)
     = Some (EWM_CPU_ERR_UNIMPLEMENTED_INSTRUCTION, example_cpu 0x0001 0xff False)
   \<and> cpu_run_stderr example_instructions (example_cpu 0x0000 0xff False) = Some 1
   \<and> cpu_run_stderr example_instructions (example_cpu 0x0001 0xff False) = Some 0"
proof -
  have "cpu_run_loop example_instructions (example_cpu 0x0000 0xff False) 0
      = Some (EWM_CPU_ERR_UNIMPLEMENTED_INSTRUCTION, of_nat 1, example_cpu 0x0001 0xff False)"
    by (rule cpu_run_loop_first_error)
      (simp_all add: example_execute_nop example_execute_unimplemented)
  moreover have "cpu_run_loop example_instructions (example_cpu 0x0001 0xff False) 0
      = Some (EWM_CPU_ERR_UNIMPLEMENTED_INSTRUCTION, of_nat 0, example_cpu 0x0001 0xff False)"
    by (rule cpu_run_loop_first_error)
      (simp_all add: example_execute_unimplemented)
  ultimately show ?thesis by (simp add: cpu_run_def cpu_run_stderr_def)
qed

text \<open>
  C3, amended. \<^verbatim>\<open>cpu_run\<close> calls the dispatcher until a call returns a nonzero error,
  counting the calls that returned zero. It returns exactly when some call fails, and
  then returns the error of the first failing call alone, leaving the processor as that
  call left it; the count (modulo \<open>2 ^ 64\<close>) of the calls before it goes to the
  diagnostic stream and is not part of the returned value.
\<close>

theorem cpu_run_returns_error_only:
  "(cpu_run instructions cpu = Some (err, cpu') \<and> cpu_run_stderr instructions cpu = Some count)
   \<longleftrightarrow> (\<exists>m. (\<forall>k<m. fst (cpu_execute_instruction instructions
                            (cpu_run_state instructions k cpu)) = EWM_CPU_OK)
          \<and> cpu_execute_instruction instructions (cpu_run_state instructions m cpu) = (err, cpu')
          \<and> err \<noteq> EWM_CPU_OK
          \<and> count = of_nat m)"
proof
  assume "cpu_run instructions cpu = Some (err, cpu') \<and> cpu_run_stderr instructions cpu = Some count"
  then have "cpu_run_loop instructions cpu 0 = Some (err, count, cpu')"
    by (auto simp add: cpu_run_def cpu_run_stderr_def)
  from cpu_run_loop_SomeD [OF this] obtain m where
    m: "\<forall>k<m. fst (cpu_execute_instruction instructions (cpu_run_state instructions k cpu))
                = EWM_CPU_OK"
       "fst (cpu_execute_instruction instructions (cpu_run_state instructions m cpu)) \<noteq> EWM_CPU_OK"
       "(err, count, cpu')
          = (fst (cpu_execute_instruction instructions (cpu_run_state instructions m cpu)),
             0 + of_nat m, cpu_run_state instructions m cpu)"
    by (elim exE conjE)
  from m(2,3)
  have "cpu_execute_instruction instructions (cpu_run_state instructions m cpu) = (err, cpu')"
    using cpu_execute_error_unchanged [OF m(2)] by (simp add: prod_eq_iff)
  with m show "\<exists>m. (\<forall>k<m. fst (cpu_execute_instruction instructions
                            (cpu_run_state instructions k cpu)) = EWM_CPU_OK)
          \<and> cpu_execute_instruction instructions (cpu_run_state instructions m cpu) = (err, cpu')
          \<and> err \<noteq> EWM_CPU_OK
          \<and> count = of_nat m"
    by (intro exI [of _ m]) simp
next
  assume "\<exists>m. (\<forall>k<m. fst (cpu_execute_instruction instructions
                            (cpu_run_state instructions k cpu)) = EWM_CPU_OK)
          \<and> cpu_execute_instruction instructions (cpu_run_state instructions m cpu) = (err, cpu')
          \<and> err \<noteq> EWM_CPU_OK
          \<and> count = of_nat m"
  then obtain m where
    m: "\<forall>k<m. fst (cpu_execute_instruction instructions (cpu_run_state instructions k cpu))
                = EWM_CPU_OK"
       "cpu_execute_instruction instructions (cpu_run_state instructions m cpu) = (err, cpu')"
       "err \<noteq> EWM_CPU_OK" "count = of_nat m"
    by (elim exE conjE)
  from cpu_run_loop_first_error [OF m(1,2,3)] m(4)
  show "cpu_run instructions cpu = Some (err, cpu') \<and> cpu_run_stderr instructions cpu = Some count"
    by (simp add: cpu_run_def cpu_run_stderr_def)
qed

text \<open>
  The sample image from 0x0000: the first call succeeds, the second finds no handler;
  the loop returns UnimplementedInstruction and prints 1.
\<close>

theorem cpu_run_returns_error_only_witness:
  "cpu_run example_instructions (example_cpu 0x0000 0xff False)
     = Some (EWM_CPU_ERR_UNIMPLEMENTED_INSTRUCTION, example_cpu 0x0001 0xff False)
   \<and> cpu_run_stderr example_instructions (example_cpu 0x0000 0xff False) = Some 1"
proof -
  have "(\<forall>k<1. fst (cpu_execute_instruction example_instructions
                 (cpu_run_state example_instructions k (example_cpu 0x0000 0xff False)))
               = EWM_CPU_OK)
          \<and> cpu_execute_instruction example_instructions
               (cpu_run_state example_instructions 1 (example_cpu 0x0000 0xff False))
             = (EWM_CPU_ERR_UNIMPLEMENTED_INSTRUCTION, example_cpu 0x0001 0xff False)
          \<and> EWM_CPU_ERR_UNIMPLEMENTED_INSTRUCTION \<noteq> EWM_CPU_OK
          \<and> (1 :: 64 word) = of_nat 1"
    by (simp add: example_execute_nop example_execute_unimplemented)
  then have "\<exists>m. (\<forall>k<m. fst (cpu_execute_instruction example_instructions
                 (cpu_run_state example_instructions k (example_cpu 0x0000 0xff False)))
               = EWM_CPU_OK)
          \<and> cpu_execute_instruction example_instructions
               (cpu_run_state example_instructions m (example_cpu 0x0000 0xff False))
             = (EWM_CPU_ERR_UNIMPLEMENTED_INSTRUCTION, example_cpu 0x0001 0xff False)
          \<and> EWM_CPU_ERR_UNIMPLEMENTED_INSTRUCTION \<noteq> EWM_CPU_OK
          \<and> (1 :: 64 word) = of_nat m"
    by (rule exI)
  then show ?thesis
    by (rule cpu_run_returns_error_only [THEN iffD2])
qed

end
